theory Spec2Isabelle
  imports Complex_Main
begin

section \<open>Data model\<close>

text \<open>
  The remapper works on JavaScript numbers. They are modelled as \<^typ>\<open>real\<close>: exact
  arithmetic, with rounding, infinities and NaN left out. Credit balances are counts and are
  modelled as \<^typ>\<open>int\<close>. Strings are \<^typ>\<open>string\<close>; an optional field is an
  \<^typ>\<open>'a option\<close>, and a JavaScript truthiness test on an optional string is
  \<open>truthy\<close> below (present and not empty).

  The layer, strategy, container and payload types are declared in a module the remapper
  imports; the records below hold the fields the remapper reads and writes. Two records
  cannot share a field name, so fields carry a prefix: \<open>l_\<close> for a source layer, \<open>t_\<close> for a
  transformed layer, \<open>c_\<close> for a container, \<open>s_\<close> and \<open>tg_\<close> for the two sides of an
  instance; a rectangle's \<open>x\<close>, \<open>y\<close>, \<open>w\<close>, \<open>h\<close> are \<open>rx\<close>, \<open>ry\<close>, \<open>rw\<close>, \<open>rh\<close>.
\<close>

record Rect =
  rx :: real
  ry :: real
  rw :: real
  rh :: real

datatype SerializableLayer =
  SerializableLayer
    (l_id: string)
    (l_name: string)
    (l_type: string)
    (l_isVisible: bool)
    (l_opacity: real)
    (l_coords: Rect)
    (l_children: "SerializableLayer list option")

record Transform =
  scaleX :: real
  scaleY :: real
  offsetX :: real
  offsetY :: real

datatype TransformedLayer =
  TransformedLayer
    (t_id: string)
    (t_name: string)
    (t_type: string)
    (t_isVisible: bool)
    (t_opacity: real)
    (t_coords: Rect)
    (t_transform: Transform)
    (t_generativePrompt: "string option")
    (t_children: "TransformedLayer list option")

record Override =
  layerId :: string
  xOffset :: real
  yOffset :: real
  individualScale :: real

record LayoutStrategy =
  suggestedScale :: real
  anchor :: string
  generativePrompt :: "string option"
  isExplicitIntent :: bool
  overrides :: "Override list option"

record TemplateContainer =
  c_name :: string
  c_originalName :: "string option"
  c_bounds :: Rect

datatype Status = success | awaiting_confirmation | error

record Dims =
  dw :: real
  dh :: real

record Metrics =
  m_source :: Dims
  m_target :: Dims

record TransformedPayload =
  status :: Status
  sourceNodeId :: "string option"
  sourceContainer :: "string option"
  targetContainer :: string
  layers :: "TransformedLayer list"
  scaleFactor :: real
  metrics :: Metrics
  requiresGeneration :: bool
  previewUrl :: "string option"
  isConfirmed :: "bool option"

record SourceData =
  s_name :: "string option"
  s_nodeId :: "string option"
  s_layers :: "SerializableLayer list"
  s_originalBounds :: Rect
  s_aiStrategy :: "LayoutStrategy option"
  s_previewUrl :: "string option"

record TargetData =
  tg_name :: string
  tg_bounds :: Rect

text \<open>JavaScript truthiness of an optional string and of an optional boolean.\<close>

definition truthy :: "string option \<Rightarrow> bool" where
  "truthy s = (case s of None \<Rightarrow> False | Some v \<Rightarrow> v \<noteq> [])"

definition truthy_bool :: "bool option \<Rightarrow> bool" where
  "truthy_bool b = (b = Some True)"

text \<open>\<open>a || b\<close> on optional strings, and with a string that is always there.\<close>

definition or_else :: "string option \<Rightarrow> string option \<Rightarrow> string option" where
  "or_else a b = (if truthy a then a else b)"

definition or_default :: "string option \<Rightarrow> string \<Rightarrow> string" where
  "or_default a d = (case a of None \<Rightarrow> d | Some v \<Rightarrow> if v \<noteq> [] then v else d)"

section \<open>Scale and anchor (part\_000, lines 273--307)\<close>

text \<open>
  The values the recursive transform closes over: the two rectangles, the strategy, and the
  scale and anchor computed from them.
\<close>

record Placement =
  sourceRect :: Rect
  targetRect :: Rect
  strategy :: "LayoutStrategy option"
  scale :: real
  anchorX :: real
  anchorY :: real

definition computePlacement :: "Rect \<Rightarrow> Rect \<Rightarrow> LayoutStrategy option \<Rightarrow> Placement" where
  "computePlacement src tgt strat =
    (let ratioX = rw tgt / rw src;
         ratioY = rh tgt / rh src
     in case strat of
          Some st \<Rightarrow>
            (let sc = suggestedScale st;
                 scaledW = rw src * sc;
                 scaledH = rh src * sc
             in \<lparr> sourceRect = src, targetRect = tgt, strategy = strat, scale = sc,
                  anchorX = rx tgt + (rw tgt - scaledW) / 2,
                  anchorY =
                    (if anchor st = ''TOP'' then ry tgt
                     else if anchor st = ''BOTTOM'' then ry tgt + (rh tgt - scaledH)
                     else ry tgt + (rh tgt - scaledH) / 2) \<rparr>)
        | None \<Rightarrow>
            (let sc = min ratioX ratioY;
                 scaledW = rw src * sc;
                 scaledH = rh src * sc
             in \<lparr> sourceRect = src, targetRect = tgt, strategy = strat, scale = sc,
                  anchorX = rx tgt + (rw tgt - scaledW) / 2,
                  anchorY = ry tgt + (rh tgt - scaledH) / 2 \<rparr>))"

section \<open>Recursive transformation engine (part\_000, lines 310--382)\<close>

text \<open>Step 1 of the loop body: the geometric baseline of a layer.\<close>

definition geomX :: "Placement \<Rightarrow> SerializableLayer \<Rightarrow> real" where
  "geomX pl layer =
    (let relX = (rx (l_coords layer) - rx (sourceRect pl)) / rw (sourceRect pl)
     in anchorX pl + relX * (rw (sourceRect pl) * scale pl))"

definition geomY :: "Placement \<Rightarrow> SerializableLayer \<Rightarrow> real" where
  "geomY pl layer =
    (let relY = (ry (l_coords layer) - ry (sourceRect pl)) / rh (sourceRect pl)
     in anchorY pl + relY * (rh (sourceRect pl) * scale pl))"

text \<open>\<open>strategy?.overrides?.find(o => o.layerId === layer.id)\<close>: the first match.\<close>

definition findOverride :: "Placement \<Rightarrow> SerializableLayer \<Rightarrow> Override option" where
  "findOverride pl layer =
    (case strategy pl of
       None \<Rightarrow> None
     | Some st \<Rightarrow>
        (case overrides st of
           None \<Rightarrow> None
         | Some ovs \<Rightarrow> find (\<lambda>ov. layerId ov = l_id layer) ovs))"

text \<open>
  Steps 2 and 3: the position before clamping, the delta handed to the children and the
  per-axis scale. With an override the position is absolute in the target.
\<close>

definition finalX :: "Placement \<Rightarrow> SerializableLayer \<Rightarrow> real \<Rightarrow> real" where
  "finalX pl layer parentDeltaX =
    (case findOverride pl layer of
       None \<Rightarrow> geomX pl layer + parentDeltaX
     | Some ov \<Rightarrow> rx (targetRect pl) + xOffset ov)"

definition finalY :: "Placement \<Rightarrow> SerializableLayer \<Rightarrow> real \<Rightarrow> real" where
  "finalY pl layer parentDeltaY =
    (case findOverride pl layer of
       None \<Rightarrow> geomY pl layer + parentDeltaY
     | Some ov \<Rightarrow> ry (targetRect pl) + yOffset ov)"

definition currentDeltaX :: "Placement \<Rightarrow> SerializableLayer \<Rightarrow> real \<Rightarrow> real" where
  "currentDeltaX pl layer parentDeltaX =
    (case findOverride pl layer of
       None \<Rightarrow> parentDeltaX
     | Some ov \<Rightarrow> finalX pl layer parentDeltaX - geomX pl layer)"

definition currentDeltaY :: "Placement \<Rightarrow> SerializableLayer \<Rightarrow> real \<Rightarrow> real" where
  "currentDeltaY pl layer parentDeltaY =
    (case findOverride pl layer of
       None \<Rightarrow> parentDeltaY
     | Some ov \<Rightarrow> finalY pl layer parentDeltaY - geomY pl layer)"

definition layerScaleX :: "Placement \<Rightarrow> SerializableLayer \<Rightarrow> real" where
  "layerScaleX pl layer =
    (case findOverride pl layer of
       None \<Rightarrow> scale pl
     | Some ov \<Rightarrow> scale pl * individualScale ov)"

definition layerScaleY :: "Placement \<Rightarrow> SerializableLayer \<Rightarrow> real" where
  "layerScaleY pl layer =
    (case findOverride pl layer of
       None \<Rightarrow> scale pl
     | Some ov \<Rightarrow> scale pl * individualScale ov)"

text \<open>
  Step 4: the vertical clamp. \<open>p\<close> is the constant \<open>MAX_BOUNDARY_VIOLATION_PERCENT\<close>,
  imported by the source from a module that declares the types; it is a parameter here.
\<close>

definition minY :: "real \<Rightarrow> Placement \<Rightarrow> real" where
  "minY p pl = ry (targetRect pl) - rh (targetRect pl) * p"

definition maxY :: "real \<Rightarrow> Placement \<Rightarrow> real" where
  "maxY p pl = ry (targetRect pl) + rh (targetRect pl) + rh (targetRect pl) * p"

definition clampY :: "real \<Rightarrow> Placement \<Rightarrow> real \<Rightarrow> real" where
  "clampY p pl v = max (minY p pl) (min v (maxY p pl))"

fun transformLayer ::
  "real \<Rightarrow> Placement \<Rightarrow> real \<Rightarrow> real \<Rightarrow> SerializableLayer \<Rightarrow> TransformedLayer" where
  "transformLayer p pl parentDeltaX parentDeltaY (SerializableLayer i n ty vis opa co ch) =
    (let layer = SerializableLayer i n ty vis opa co ch;
         fx = finalX pl layer parentDeltaX;
         fy = clampY p pl (finalY pl layer parentDeltaY);
         cdx = currentDeltaX pl layer parentDeltaX;
         cdy = currentDeltaY pl layer parentDeltaY;
         lsx = layerScaleX pl layer;
         lsy = layerScaleY pl layer
     in TransformedLayer i n ty vis opa
          \<lparr> rx = fx, ry = fy, rw = rw co * lsx, rh = rh co * lsy \<rparr>
          \<lparr> scaleX = lsx, scaleY = lsy, offsetX = fx, offsetY = fy \<rparr>
          None
          (map_option (map (transformLayer p pl cdx cdy)) ch))"

definition transformLayers ::
  "real \<Rightarrow> Placement \<Rightarrow> SerializableLayer list \<Rightarrow> real \<Rightarrow> real \<Rightarrow> TransformedLayer list" where
  "transformLayers p pl ls parentDeltaX parentDeltaY =
     map (transformLayer p pl parentDeltaX parentDeltaY) ls"

section \<open>Generative gate and payload (part\_000, lines 386--458)\<close>

text \<open>
  The gate returns the three variables it sets: \<open>requiresGeneration\<close>, \<open>status\<close> and
  \<open>generativePromptUsed\<close>. \<open>isConfirmed\<close> is \<open>confirmations[i]\<close>, absent until the user
  confirms.
\<close>

definition gate ::
  "LayoutStrategy option \<Rightarrow> real \<Rightarrow> bool option \<Rightarrow> int \<Rightarrow> bool \<times> Status \<times> string option" where
  "gate strat sc isConf userCredits =
    (case strat of
       None \<Rightarrow> (False, success, None)
     | Some st \<Rightarrow>
        (if truthy (generativePrompt st) then
           (let scaleThreshold = 2;
                isExplicit = isExplicitIntent st;
                isHighStretch = sc > scaleThreshold;
                hasCredits = userCredits > 0
            in if truthy_bool isConf \<and> hasCredits then (True, success, generativePrompt st)
               else if isExplicit \<or> isHighStretch then (False, awaiting_confirmation, None)
               else (False, success, None))
         else (False, success, None)))"

text \<open>
  The synthetic layer. Its name starts with a sparkle character (U+2728) and holds the first
  twenty characters of the prompt.
\<close>

definition genLayer :: "string option \<Rightarrow> Rect \<Rightarrow> string \<Rightarrow> TransformedLayer" where
  "genLayer srcName tgt prompt =
    TransformedLayer
      (''gen-layer-'' @ or_default srcName ''unknown'')
      ([CHR 0xE2, CHR 0x9C, CHR 0xA8] @ '' AI Gen: '' @ take 20 prompt @ ''...'')
      ''generative''
      True
      1
      \<lparr> rx = rx tgt, ry = ry tgt, rw = rw tgt, rh = rh tgt \<rparr>
      \<lparr> scaleX = 1, scaleY = 1, offsetX = rx tgt, offsetY = ry tgt \<rparr>
      (Some prompt)
      None"

definition computePayload ::
  "real \<Rightarrow> SourceData \<Rightarrow> TargetData \<Rightarrow> bool option \<Rightarrow> int \<Rightarrow> string option
     \<Rightarrow> TransformedPayload" where
  "computePayload p src tgt isConf userCredits localPreview =
    (let srcRect = s_originalBounds src;
         tgtRect = tg_bounds tgt;
         pl = computePlacement srcRect tgtRect (s_aiStrategy src);
         transformedLayers = transformLayers p pl (s_layers src) 0 0;
         (requiresGen, st, promptUsed) = gate (s_aiStrategy src) (scale pl) isConf userCredits
     in \<lparr> status = st,
          sourceNodeId = s_nodeId src,
          sourceContainer = s_name src,
          targetContainer = tg_name tgt,
          layers =
            (case promptUsed of
               Some prompt \<Rightarrow>
                 (if requiresGen \<and> prompt \<noteq> []
                  then genLayer (s_name src) tgtRect prompt # transformedLayers
                  else transformedLayers)
             | None \<Rightarrow> transformedLayers),
          scaleFactor = scale pl,
          metrics = \<lparr> m_source = \<lparr> dw = rw srcRect, dh = rh srcRect \<rparr>,
                      m_target = \<lparr> dw = rw tgtRect, dh = rh tgtRect \<rparr> \<rparr>,
          requiresGeneration = requiresGen,
          previewUrl = or_else (s_previewUrl src) localPreview,
          isConfirmed = isConf \<rparr>)"

text \<open>A payload exists only when both sides of the instance are ready.\<close>

definition instancePayload ::
  "real \<Rightarrow> SourceData option \<Rightarrow> TargetData option \<Rightarrow> bool option \<Rightarrow> int \<Rightarrow> string option
     \<Rightarrow> TransformedPayload option" where
  "instancePayload p src tgt isConf userCredits localPreview =
    (case (src, tgt) of
       (Some s, Some t) \<Rightarrow> Some (computePayload p s t isConf userCredits localPreview)
     | _ \<Rightarrow> None)"

section \<open>Target container resolution (part\_000, lines 222--261)\<close>

definition startsWith :: "string \<Rightarrow> string \<Rightarrow> bool" where
  "startsWith s pre = (take (length pre) s = pre)"

text \<open>\<open>s.replace(pat, '')\<close> with a string pattern: the first occurrence is removed.\<close>

fun removeFirst :: "string \<Rightarrow> string \<Rightarrow> string" where
  "removeFirst pat [] = []"
| "removeFirst pat (c # cs) =
     (if take (length pat) (c # cs) = pat then drop (length pat) (c # cs)
      else c # removeFirst pat cs)"

definition isDigit :: "char \<Rightarrow> bool" where
  "isDigit c = (c \<in> set ''0123456789'')"

text \<open>The regular expression \<open>/^target-out-(\d+)$/\<close>: the captured digits, if it matches.\<close>

definition indexMatch :: "string \<Rightarrow> string option" where
  "indexMatch handle =
    (let rest = drop (length ''target-out-'') handle
     in if startsWith handle ''target-out-'' \<and> rest \<noteq> [] \<and> list_all isDigit rest
        then Some rest else None)"

definition digitVal :: "char \<Rightarrow> nat" where
  "digitVal c = of_char c - 48"

definition parseInt10 :: "string \<Rightarrow> nat" where
  "parseInt10 ds = foldl (\<lambda>acc c. acc * 10 + digitVal c) 0 ds"

text \<open>\<open>containers[index]\<close>: absent out of range.\<close>

definition at_index :: "'a list \<Rightarrow> nat \<Rightarrow> 'a option" where
  "at_index xs i = (if i < length xs then Some (xs ! i) else None)"

definition resolveContainer :: "TemplateContainer list \<Rightarrow> string \<Rightarrow> TemplateContainer option" where
  "resolveContainer containers handle =
    (let cdA = find (\<lambda>c. c_name c = handle) containers;
         cdB = (if cdA = None \<and> startsWith handle ''slot-bounds-''
                then (let clean = removeFirst ''slot-bounds-'' handle
                      in find (\<lambda>c. c_name c = clean) containers)
                else cdA);
         cdC = (if cdB = None
                then (case indexMatch handle of
                        Some ds \<Rightarrow>
                          (let index = parseInt10 ds
                           in case at_index containers index of
                                Some c \<Rightarrow> Some c
                              | None \<Rightarrow> cdB)
                      | None \<Rightarrow> cdB)
                else cdB);
         cdD = (if cdC = None \<and> length containers = 1 then at_index containers 0 else cdC)
     in cdD)"

definition resolveTarget :: "TemplateContainer list \<Rightarrow> string \<Rightarrow> TargetData option" where
  "resolveTarget containers handle =
    (case resolveContainer containers handle of
       None \<Rightarrow> None
     | Some c \<Rightarrow>
        Some \<lparr> tg_name = or_default (c_originalName c) (c_name c),
               tg_bounds = c_bounds c \<rparr>)"

text \<open>
  The resolution order as the specification words it: four strategies, tried in order, the
  first that matches is used.
\<close>

definition strategyA :: "TemplateContainer list \<Rightarrow> string \<Rightarrow> TemplateContainer option" where
  "strategyA containers handle = find (\<lambda>c. c_name c = handle) containers"

definition strategyB :: "TemplateContainer list \<Rightarrow> string \<Rightarrow> TemplateContainer option" where
  "strategyB containers handle =
    (if startsWith handle ''slot-bounds-''
     then find (\<lambda>c. c_name c = drop (length ''slot-bounds-'') handle) containers
     else None)"

definition strategyC :: "TemplateContainer list \<Rightarrow> string \<Rightarrow> TemplateContainer option" where
  "strategyC containers handle =
    (case indexMatch handle of
       None \<Rightarrow> None
     | Some ds \<Rightarrow> at_index containers (parseInt10 ds))"

definition strategyD :: "TemplateContainer list \<Rightarrow> string \<Rightarrow> TemplateContainer option" where
  "strategyD containers handle =
    (case containers of [c] \<Rightarrow> Some c | _ \<Rightarrow> None)"

fun first_match :: "'a option list \<Rightarrow> 'a option" where
  "first_match [] = None"
| "first_match (None # rest) = first_match rest"
| "first_match (Some v # rest) = Some v"

definition resolve_spec :: "TemplateContainer list \<Rightarrow> string \<Rightarrow> TemplateContainer option" where
  "resolve_spec containers handle =
    first_match [strategyA containers handle, strategyB containers handle,
                 strategyC containers handle, strategyD containers handle]"

section \<open>Credit store (ProceduralContext.tsx, lines 163--169)\<close>

text \<open>
  \<open>consumeCredit\<close> is a callback memoised per render: its test reads the \<open>userCredits\<close>
  of the render that created it, while its update \<open>setUserCredits(prev => prev - amount)\<close> is
  applied to the latest state. The store therefore has two values: \<open>renderedCredits\<close>, what
  the callbacks of the current render see, and \<open>userCredits\<close>, the state itself. A render
  copies the state into the callbacks.
\<close>

record CreditStore =
  renderedCredits :: int
  userCredits :: int

definition consumeCredit :: "int \<Rightarrow> CreditStore \<Rightarrow> bool \<times> CreditStore" where
  "consumeCredit amount st =
    (if renderedCredits st \<ge> amount
     then (True, st\<lparr> userCredits := userCredits st - amount \<rparr>)
     else (False, st))"

definition render :: "CreditStore \<Rightarrow> CreditStore" where
  "render st = st\<lparr> renderedCredits := userCredits st \<rparr>"

section \<open>Predicates on transformed trees\<close>

text \<open>\<open>all_nodes P t\<close>: \<open>P\<close> holds at \<open>t\<close> and at every descendant of \<open>t\<close>.\<close>

fun all_nodes :: "(TransformedLayer \<Rightarrow> bool) \<Rightarrow> TransformedLayer \<Rightarrow> bool" where
  "all_nodes P (TransformedLayer i n ty vis opa co tr gp ch) =
     (P (TransformedLayer i n ty vis opa co tr gp ch) \<and>
      (case ch of None \<Rightarrow> True | Some cs \<Rightarrow> list_all (all_nodes P) cs))"

text \<open>
  A transformed node mirrors a source node: same identifier, name, type, visibility and
  opacity, no prompt, and children that mirror the source's children one by one, in order
  (absent exactly when the source's are).
\<close>

fun mirrors :: "SerializableLayer \<Rightarrow> TransformedLayer \<Rightarrow> bool" where
  "mirrors (SerializableLayer i n ty vis opa co ch) t =
     (t_id t = i \<and> t_name t = n \<and> t_type t = ty \<and> t_isVisible t = vis \<and> t_opacity t = opa \<and>
      t_generativePrompt t = None \<and>
      (case (ch, t_children t) of
         (None, None) \<Rightarrow> True
       | (Some cs, Some ts) \<Rightarrow> list_all2 mirrors cs ts
       | _ \<Rightarrow> False))"

section \<open>Worked inputs\<close>

text \<open>
  Concrete inputs used to instantiate the theorems below: a 100 by 100 source with a root
  group and one child, targets, and a strategy whose override moves the root to a chosen height, and one that
  overrides the child as well.
\<close>

definition ex_source :: Rect where
  "ex_source = \<lparr> rx = 0, ry = 0, rw = 100, rh = 100 \<rparr>"

definition ex_target :: Rect where
  "ex_target = \<lparr> rx = 0, ry = 0, rw = 50, rh = 200 \<rparr>"

definition ex_child :: SerializableLayer where
  "ex_child = SerializableLayer ''title'' ''Title'' ''layer'' True 1
                \<lparr> rx = 10, ry = 80, rw = 30, rh = 10 \<rparr> None"

definition ex_root :: SerializableLayer where
  "ex_root = SerializableLayer ''root'' ''Root'' ''group'' True 1 ex_source (Some [ex_child])"

definition ex_override :: "real \<Rightarrow> Override" where
  "ex_override yo = \<lparr> layerId = ''root'', xOffset = 500, yOffset = yo, individualScale = 2 \<rparr>"

definition ex_strategy :: "real \<Rightarrow> LayoutStrategy" where
  "ex_strategy yo = \<lparr> suggestedScale = 1, anchor = ''BOTTOM'', generativePrompt = Some ''sky'',
                       isExplicitIntent = True, overrides = Some [ex_override yo] \<rparr>"

definition ex_child_override :: Override where
  "ex_child_override = \<lparr> layerId = ''title'', xOffset = 1, yOffset = 2, individualScale = 1 \<rparr>"

definition ex_strategy_both :: LayoutStrategy where
  "ex_strategy_both = \<lparr> suggestedScale = 1, anchor = ''BOTTOM'', generativePrompt = Some ''sky'',
                         isExplicitIntent = True,
                         overrides = Some [ex_override (- 50), ex_child_override] \<rparr>"

definition ex_sourceData :: "LayoutStrategy option \<Rightarrow> SourceData" where
  "ex_sourceData strat =
     \<lparr> s_name = Some ''Hero'', s_nodeId = Some ''n1'', s_layers = [ex_root],
       s_originalBounds = ex_source, s_aiStrategy = strat, s_previewUrl = None \<rparr>"

definition ex_targetData :: TargetData where
  "ex_targetData = \<lparr> tg_name = ''BG'', tg_bounds = ex_target \<rparr>"

definition ex_bg :: TemplateContainer where
  "ex_bg = \<lparr> c_name = ''BG'', c_originalName = None, c_bounds = ex_target \<rparr>"

definition ex_slot :: TemplateContainer where
  "ex_slot = \<lparr> c_name = ''target-out-0'', c_originalName = Some ''Hero'', c_bounds = ex_source \<rparr>"

definition ex_containers :: "TemplateContainer list" where
  "ex_containers = [ex_bg, ex_slot]"

lemmas ex_defs =
  ex_source_def ex_target_def ex_child_def ex_root_def ex_override_def ex_strategy_def
  ex_sourceData_def ex_targetData_def

lemmas engine_defs =
  computePlacement_def geomX_def geomY_def findOverride_def finalX_def finalY_def
  currentDeltaX_def currentDeltaY_def layerScaleX_def layerScaleY_def
  minY_def maxY_def clampY_def transformLayers_def

section \<open>Properties of the transformation engine\<close>

text \<open>What one call of the loop body returns, field by field.\<close>

lemma t_coords_transformLayer:
  "t_coords (transformLayer p pl dx dy layer) =
     \<lparr> rx = finalX pl layer dx, ry = clampY p pl (finalY pl layer dy),
       rw = rw (l_coords layer) * layerScaleX pl layer,
       rh = rh (l_coords layer) * layerScaleY pl layer \<rparr>"
  by (cases layer) (simp add: Let_def)

lemma t_transform_transformLayer:
  "t_transform (transformLayer p pl dx dy layer) =
     \<lparr> scaleX = layerScaleX pl layer, scaleY = layerScaleY pl layer,
       offsetX = finalX pl layer dx, offsetY = clampY p pl (finalY pl layer dy) \<rparr>"
  by (cases layer) (simp add: Let_def)

lemma t_children_transformLayer:
  "t_children (transformLayer p pl dx dy layer) =
     map_option
       (\<lambda>cs. transformLayers p pl cs (currentDeltaX pl layer dx) (currentDeltaY pl layer dy))
       (l_children layer)"
  by (cases layer) (simp add: Let_def transformLayers_def)

lemma t_fields_transformLayer:
  "t_id (transformLayer p pl dx dy layer) = l_id layer"
  "t_name (transformLayer p pl dx dy layer) = l_name layer"
  "t_type (transformLayer p pl dx dy layer) = l_type layer"
  "t_isVisible (transformLayer p pl dx dy layer) = l_isVisible layer"
  "t_opacity (transformLayer p pl dx dy layer) = l_opacity layer"
  "t_generativePrompt (transformLayer p pl dx dy layer) = None"
  by (cases layer; simp add: Let_def)+

declare transformLayer.simps [simp del]

lemma all_nodes_sel:
  "all_nodes P t =
     (P t \<and> (case t_children t of None \<Rightarrow> True | Some cs \<Rightarrow> list_all (all_nodes P) cs))"
  by (cases t) simp

text \<open>A property of every single call of the loop body holds at every node of the tree.\<close>

lemma all_nodes_transformLayer:
  assumes "\<And>l dx dy. P (transformLayer p pl dx dy l)"
  shows "all_nodes P (transformLayer p pl dx dy layer)"
proof (induction layer arbitrary: dx dy)
  case (SerializableLayer i n ty vis opa co ch)
  let ?l = "SerializableLayer i n ty vis opa co ch"
  have kids: "case t_children (transformLayer p pl dx dy ?l) of
                None \<Rightarrow> True | Some cs \<Rightarrow> list_all (all_nodes P) cs"
  proof (cases ch)
    case None
    then show ?thesis by (simp add: t_children_transformLayer)
  next
    case (Some cs)
    have "list_all (all_nodes P) (map (transformLayer p pl a b) cs)" for a b
      using SerializableLayer.IH[of cs] Some by (simp add: list_all_iff)
    then show ?thesis
      using Some by (simp add: t_children_transformLayer transformLayers_def)
  qed
  show ?case
    using assms[of dx dy ?l] kids
    by (subst all_nodes_sel) blast
qed

lemma list_all_nodes_transformLayers:
  assumes "\<And>l dx dy. P (transformLayer p pl dx dy l)"
  shows "list_all (all_nodes P) (transformLayers p pl ls dx dy)"
  using all_nodes_transformLayer[of P p pl, OF assms]
  by (simp add: transformLayers_def list_all_iff)

lemma clampY_bounds:
  assumes "0 \<le> p" "0 \<le> rh (targetRect pl)"
  shows "minY p pl \<le> clampY p pl v" "clampY p pl v \<le> maxY p pl"
  using assms by (auto simp: clampY_def minY_def maxY_def)

subsection \<open>Boundary clamp\<close>

text \<open>
  Claim C4. In every transformed tree, every node's final \<open>y\<close> lies between
  \<open>targetY - p * targetH\<close> and \<open>targetY + targetH + p * targetH\<close>, whatever the overrides
  and the inherited delta; the \<open>x\<close> coordinate is not clamped: it is the override's absolute
  position, or the geometric baseline plus the inherited delta, unchanged. The target height
  and the bleed fraction \<open>p\<close> are not negative, and the source rectangle is not degenerate
  (the baseline divides by its width and height).
\<close>

theorem boundary_clamp_invariant:
  assumes "0 \<le> p" and "0 \<le> rh (targetRect pl)"
    and "rw (sourceRect pl) \<noteq> 0" and "rh (sourceRect pl) \<noteq> 0"
  shows "list_all
           (all_nodes (\<lambda>t. ry (targetRect pl) - p * rh (targetRect pl) \<le> ry (t_coords t) \<and>
                           ry (t_coords t) \<le> ry (targetRect pl) + rh (targetRect pl) + p * rh (targetRect pl)))
           (transformLayers p pl ls dx dy) \<and>
         rx (t_coords (transformLayer p pl dx dy layer)) =
           (case findOverride pl layer of
              None \<Rightarrow> geomX pl layer + dx
            | Some ov \<Rightarrow> rx (targetRect pl) + xOffset ov)"
proof -
  have one: "ry (targetRect pl) - p * rh (targetRect pl) \<le> ry (t_coords (transformLayer p pl a b l)) \<and>
             ry (t_coords (transformLayer p pl a b l)) \<le> ry (targetRect pl) + rh (targetRect pl) + p * rh (targetRect pl)"
    for l a b
    using clampY_bounds[OF assms(1,2), of "finalY pl l b"]
    by (simp add: t_coords_transformLayer minY_def maxY_def mult.commute)
  have "list_all
           (all_nodes (\<lambda>t. ry (targetRect pl) - p * rh (targetRect pl) \<le> ry (t_coords t) \<and>
                           ry (t_coords t) \<le> ry (targetRect pl) + rh (targetRect pl) + p * rh (targetRect pl)))
           (transformLayers p pl ls dx dy)"
    by (rule list_all_nodes_transformLayers) (rule one)
  moreover have "rx (t_coords (transformLayer p pl dx dy layer)) =
           (case findOverride pl layer of
              None \<Rightarrow> geomX pl layer + dx
            | Some ov \<Rightarrow> rx (targetRect pl) + xOffset ov)"
    by (simp add: t_coords_transformLayer finalX_def)
  ultimately show ?thesis by blast
qed

theorem boundary_clamp_invariant_witness:
  "(0::real) \<le> 1/20 \<and>
   0 \<le> rh (targetRect (computePlacement ex_source ex_target (Some (ex_strategy 1000)))) \<and>
   rw (sourceRect (computePlacement ex_source ex_target (Some (ex_strategy 1000)))) \<noteq> 0 \<and>
   rh (sourceRect (computePlacement ex_source ex_target (Some (ex_strategy 1000)))) \<noteq> 0 \<and>
   list_all (all_nodes (\<lambda>t. - 10 \<le> ry (t_coords t) \<and> ry (t_coords t) \<le> 210))
     (transformLayers (1/20) (computePlacement ex_source ex_target (Some (ex_strategy 1000)))
        [ex_root] 0 0) \<and>
   rx (t_coords (transformLayer (1/20)
        (computePlacement ex_source ex_target (Some (ex_strategy 1000))) 0 0 ex_root)) = 500"
proof -
  let ?pl = "computePlacement ex_source ex_target (Some (ex_strategy 1000))"
  have h1: "(0::real) \<le> 1/20" by simp
  have h2: "0 \<le> rh (targetRect ?pl)" by (simp add: computePlacement_def ex_defs Let_def)
  have h3: "rw (sourceRect ?pl) \<noteq> 0" by (simp add: computePlacement_def ex_defs Let_def)
  have h4: "rh (sourceRect ?pl) \<noteq> 0" by (simp add: computePlacement_def ex_defs Let_def)
  have t: "targetRect ?pl = ex_target" by (simp add: computePlacement_def ex_defs Let_def)
  have f: "findOverride ?pl ex_root = Some (ex_override 1000)"
    by (simp add: computePlacement_def findOverride_def ex_defs Let_def)
  show ?thesis
    using h1 h2 h3 h4 boundary_clamp_invariant[OF h1 h2 h3 h4, of "[ex_root]" 0 0 ex_root]
    by (simp add: t f) (simp add: ex_target_def ex_override_def)
qed

text \<open>Every transformed node mirrors the source node it was made from.\<close>

lemma mirrors_sel:
  "mirrors l t =
     (t_id t = l_id l \<and> t_name t = l_name l \<and> t_type t = l_type l \<and>
      t_isVisible t = l_isVisible l \<and> t_opacity t = l_opacity l \<and>
      t_generativePrompt t = None \<and>
      (case (l_children l, t_children t) of
         (None, None) \<Rightarrow> True
       | (Some cs, Some ts) \<Rightarrow> list_all2 mirrors cs ts
       | _ \<Rightarrow> False))"
  by (cases l) simp

lemma mirrors_transformLayer: "mirrors layer (transformLayer p pl dx dy layer)"
proof (induction layer arbitrary: dx dy)
  case (SerializableLayer i n ty vis opa co ch)
  let ?l = "SerializableLayer i n ty vis opa co ch"
  have kids: "case (l_children ?l, t_children (transformLayer p pl dx dy ?l)) of
         (None, None) \<Rightarrow> True
       | (Some cs, Some ts) \<Rightarrow> list_all2 mirrors cs ts
       | _ \<Rightarrow> False"
  proof (cases ch)
    case None
    then show ?thesis by (simp add: t_children_transformLayer)
  next
    case (Some cs)
    have "list_all2 mirrors cs (map (transformLayer p pl a b) cs)" for a b
      using SerializableLayer.IH[of cs] Some
      by (simp add: list_all2_conv_all_nth)
    then show ?thesis
      using Some by (simp add: t_children_transformLayer transformLayers_def)
  qed
  show ?case
    using kids by (subst mirrors_sel) (simp add: t_fields_transformLayer)
qed

lemma mirrors_transformLayers: "list_all2 mirrors ls (transformLayers p pl ls dx dy)"
  by (simp add: transformLayers_def list_all2_conv_all_nth mirrors_transformLayer)

subsection \<open>Default placement\<close>

lemma computePlacement_None:
  "computePlacement src tgt None =
     \<lparr> sourceRect = src, targetRect = tgt, strategy = None,
       scale = min (rw tgt / rw src) (rh tgt / rh src),
       anchorX = rx tgt + (rw tgt - rw src * min (rw tgt / rw src) (rh tgt / rh src)) / 2,
       anchorY = ry tgt + (rh tgt - rh src * min (rw tgt / rw src) (rh tgt / rh src)) / 2 \<rparr>"
  by (simp add: computePlacement_def Let_def)

lemma computePlacement_Some:
  "computePlacement src tgt (Some st) =
     \<lparr> sourceRect = src, targetRect = tgt, strategy = Some st,
       scale = suggestedScale st,
       anchorX = rx tgt + (rw tgt - rw src * suggestedScale st) / 2,
       anchorY =
         (if anchor st = ''TOP'' then ry tgt
          else if anchor st = ''BOTTOM'' then ry tgt + (rh tgt - rh src * suggestedScale st)
          else ry tgt + (rh tgt - rh src * suggestedScale st) / 2) \<rparr>"
  by (simp add: computePlacement_def Let_def)

lemma fit_scale_bounds:
  fixes sw sh tw th :: real
  assumes "0 < sw" "0 < sh" "0 < tw" "0 < th"
  shows "0 < min (tw / sw) (th / sh)"
    and "sw * min (tw / sw) (th / sh) \<le> tw"
    and "sh * min (tw / sw) (th / sh) \<le> th"
proof -
  let ?s = "min (tw / sw) (th / sh)"
  show "0 < ?s" using assms by simp
  have "?s \<le> tw / sw" by simp
  then have "?s * sw \<le> tw" using assms(1) pos_le_divide_eq[of sw ?s tw] by blast
  then show "sw * ?s \<le> tw" by (simp add: mult.commute)
  have "?s \<le> th / sh" by simp
  then have "?s * sh \<le> th" using assms(2) pos_le_divide_eq[of sh ?s th] by blast
  then show "sh * ?s \<le> th" by (simp add: mult.commute)
qed

lemma centred_gap:
  fixes a l s :: real
  shows "(a + (l - s) / 2) - a = (a + l) - ((a + (l - s) / 2) + s)"
  by (simp add: field_simps)

text \<open>
  Claim C2. For source and target rectangles of positive width and height and no strategy,
  the scale is \<open>min (targetW / sourceW) (targetH / sourceH)\<close>, the anchor is
  \<open>targetX + (targetW - sourceW * scale) / 2\<close> and likewise vertically, and a root layer that
  fills the source rectangle lands on the anchor with equal gaps to the target's edges on both
  axes. With a strategy, \<open>suggestedScale\<close> is the scale, the vertical anchor follows the mode
  (TOP: target top; BOTTOM: \<open>targetY + targetH - scaledH\<close>; otherwise the vertical centre),
  and the horizontal anchor is the centred one; a root layer without an override of its own
  lands on it, its \<open>y\<close> subject to the clamp.
\<close>

theorem default_placement:
  assumes "0 < rw src" and "0 < rh src" and "0 < rw tgt" and "0 < rh tgt" and "0 \<le> p"
    and "l_coords rootLayer = src"
  shows
    "(let pl = computePlacement src tgt None;
          t = transformLayer p pl 0 0 rootLayer;
          sc = min (rw tgt / rw src) (rh tgt / rh src)
      in scale pl = sc \<and>
         anchorX pl = rx tgt + (rw tgt - rw src * sc) / 2 \<and>
         anchorY pl = ry tgt + (rh tgt - rh src * sc) / 2 \<and>
         rx (t_coords t) = anchorX pl \<and> ry (t_coords t) = anchorY pl \<and>
         rw (t_coords t) = rw src * sc \<and> rh (t_coords t) = rh src * sc \<and>
         rx (t_coords t) - rx tgt = (rx tgt + rw tgt) - (rx (t_coords t) + rw (t_coords t)) \<and>
         ry (t_coords t) - ry tgt = (ry tgt + rh tgt) - (ry (t_coords t) + rh (t_coords t))) \<and>
     (let pl = computePlacement src tgt (Some st);
          sc = suggestedScale st
      in scale pl = sc \<and>
         anchorX pl = rx tgt + (rw tgt - rw src * sc) / 2 \<and>
         anchorY pl =
           (if anchor st = ''TOP'' then ry tgt
            else if anchor st = ''BOTTOM'' then ry tgt + rh tgt - rh src * sc
            else ry tgt + (rh tgt - rh src * sc) / 2) \<and>
         (findOverride pl rootLayer = None \<longrightarrow>
            rx (t_coords (transformLayer p pl 0 0 rootLayer)) = anchorX pl \<and>
            ry (t_coords (transformLayer p pl 0 0 rootLayer)) = clampY p pl (anchorY pl)))"
proof -
  let ?sc = "min (rw tgt / rw src) (rh tgt / rh src)"
  let ?pl = "computePlacement src tgt None"
  note b = fit_scale_bounds[OF assms(1-4)]
  have fo: "findOverride ?pl rootLayer = None"
    by (simp add: computePlacement_None findOverride_def)
  have gx: "geomX ?pl rootLayer = anchorX ?pl"
    using assms(6) by (simp add: geomX_def computePlacement_None)
  have gy: "geomY ?pl rootLayer = anchorY ?pl"
    using assms(6) by (simp add: geomY_def computePlacement_None)
  have ay: "anchorY ?pl = ry tgt + (rh tgt - rh src * ?sc) / 2"
    by (simp add: computePlacement_None)
  have lo: "ry tgt \<le> anchorY ?pl" using b(3) by (simp add: ay)
  have "0 \<le> rh src * ?sc" using assms(2) b(1) by simp
  then have hi: "anchorY ?pl \<le> ry tgt + rh tgt" using assms(4) by (simp add: ay)
  have "0 \<le> rh tgt * p" using assms(4,5) by simp
  then have cl: "clampY p ?pl (anchorY ?pl) = anchorY ?pl"
    using lo hi by (simp add: clampY_def minY_def maxY_def computePlacement_None)
  have x: "rx (t_coords (transformLayer p ?pl 0 0 rootLayer)) = anchorX ?pl"
    by (simp add: t_coords_transformLayer finalX_def fo gx)
  have y: "ry (t_coords (transformLayer p ?pl 0 0 rootLayer)) = anchorY ?pl"
    by (simp add: t_coords_transformLayer finalY_def fo gy cl)
  have w: "rw (t_coords (transformLayer p ?pl 0 0 rootLayer)) = rw src * ?sc"
    using assms(6) fo by (simp add: t_coords_transformLayer layerScaleX_def computePlacement_None)
  have h: "rh (t_coords (transformLayer p ?pl 0 0 rootLayer)) = rh src * ?sc"
    using assms(6) fo by (simp add: t_coords_transformLayer layerScaleY_def computePlacement_None)
  have s: "scale ?pl = ?sc" by (simp add: computePlacement_None)
  have ax: "anchorX ?pl = rx tgt + (rw tgt - rw src * ?sc) / 2"
    by (simp add: computePlacement_None)
  have first:
    "scale ?pl = ?sc \<and>
     anchorX ?pl = rx tgt + (rw tgt - rw src * ?sc) / 2 \<and>
     anchorY ?pl = ry tgt + (rh tgt - rh src * ?sc) / 2 \<and>
     rx (t_coords (transformLayer p ?pl 0 0 rootLayer)) = anchorX ?pl \<and>
     ry (t_coords (transformLayer p ?pl 0 0 rootLayer)) = anchorY ?pl \<and>
     rw (t_coords (transformLayer p ?pl 0 0 rootLayer)) = rw src * ?sc \<and>
     rh (t_coords (transformLayer p ?pl 0 0 rootLayer)) = rh src * ?sc \<and>
     rx (t_coords (transformLayer p ?pl 0 0 rootLayer)) - rx tgt =
       (rx tgt + rw tgt) - (rx (t_coords (transformLayer p ?pl 0 0 rootLayer)) +
                            rw (t_coords (transformLayer p ?pl 0 0 rootLayer))) \<and>
     ry (t_coords (transformLayer p ?pl 0 0 rootLayer)) - ry tgt =
       (ry tgt + rh tgt) - (ry (t_coords (transformLayer p ?pl 0 0 rootLayer)) +
                            rh (t_coords (transformLayer p ?pl 0 0 rootLayer)))"
    unfolding x y w h s
    using centred_gap[of "rx tgt" "rw tgt" "rw src * ?sc"]
          centred_gap[of "ry tgt" "rh tgt" "rh src * ?sc"]
    unfolding ax[symmetric] ay[symmetric] by (simp add: ax ay)
  have second:
    "scale (computePlacement src tgt (Some st)) = suggestedScale st \<and>
     anchorX (computePlacement src tgt (Some st)) =
       rx tgt + (rw tgt - rw src * suggestedScale st) / 2 \<and>
     anchorY (computePlacement src tgt (Some st)) =
       (if anchor st = ''TOP'' then ry tgt
        else if anchor st = ''BOTTOM'' then ry tgt + rh tgt - rh src * suggestedScale st
        else ry tgt + (rh tgt - rh src * suggestedScale st) / 2)"
    by (simp add: computePlacement_Some)
  have gx': "geomX (computePlacement src tgt (Some st)) rootLayer =
               anchorX (computePlacement src tgt (Some st))"
    using assms(6) by (simp add: geomX_def computePlacement_Some)
  have gy': "geomY (computePlacement src tgt (Some st)) rootLayer =
               anchorY (computePlacement src tgt (Some st))"
    using assms(6) by (simp add: geomY_def computePlacement_Some)
  have third:
    "findOverride (computePlacement src tgt (Some st)) rootLayer = None \<longrightarrow>
       rx (t_coords (transformLayer p (computePlacement src tgt (Some st)) 0 0 rootLayer)) =
         anchorX (computePlacement src tgt (Some st)) \<and>
       ry (t_coords (transformLayer p (computePlacement src tgt (Some st)) 0 0 rootLayer)) =
         clampY p (computePlacement src tgt (Some st))
           (anchorY (computePlacement src tgt (Some st)))"
    by (simp add: t_coords_transformLayer finalX_def finalY_def gx' gy')
  show ?thesis
    unfolding Let_def using first second third by blast
qed

theorem default_placement_witness:
  "0 < rw ex_source \<and> 0 < rh ex_source \<and> 0 < rw ex_target \<and> 0 < rh ex_target \<and>
   (0::real) \<le> 1/20 \<and> l_coords ex_root = ex_source \<and>
   scale (computePlacement ex_source ex_target None) = 1/2 \<and>
   anchorX (computePlacement ex_source ex_target None) = 0 \<and>
   anchorY (computePlacement ex_source ex_target None) = 75 \<and>
   t_coords (transformLayer (1/20) (computePlacement ex_source ex_target None) 0 0 ex_root) =
     \<lparr> rx = 0, ry = 75, rw = 50, rh = 50 \<rparr> \<and>
   scale (computePlacement ex_source ex_target (Some ((ex_strategy 0)\<lparr> overrides := None \<rparr>))) = 1 \<and>
   anchorX (computePlacement ex_source ex_target (Some ((ex_strategy 0)\<lparr> overrides := None \<rparr>))) = - 25 \<and>
   anchorY (computePlacement ex_source ex_target (Some ((ex_strategy 0)\<lparr> overrides := None \<rparr>))) = 100 \<and>
   rx (t_coords (transformLayer (1/20)
         (computePlacement ex_source ex_target (Some ((ex_strategy 0)\<lparr> overrides := None \<rparr>)))
         0 0 ex_root)) = - 25"
proof -
  let ?st = "(ex_strategy 0)\<lparr> overrides := None \<rparr>"
  have h1: "0 < rw ex_source" and h2: "0 < rh ex_source"
    and h3: "0 < rw ex_target" and h4: "0 < rh ex_target"
    by (simp_all add: ex_defs)
  have h5: "(0::real) \<le> 1/20" by simp
  have h6: "l_coords ex_root = ex_source" by (simp add: ex_root_def)
  have fo: "findOverride (computePlacement ex_source ex_target (Some ?st)) ex_root = None"
    by (simp add: findOverride_def computePlacement_def Let_def ex_strategy_def)
  have m: "min (rw ex_target / rw ex_source) (rh ex_target / rh ex_source) = 1/2"
    by (simp add: ex_defs)
  have st: "suggestedScale ?st = 1" "anchor ?st = ''BOTTOM''"
    by (simp_all add: ex_strategy_def)
  have e: "rx ex_target = 0" "ry ex_target = 0" "rw ex_target = 50" "rh ex_target = 200"
          "rw ex_source = 100" "rh ex_source = 100"
    by (simp_all add: ex_defs)
  from default_placement[OF h1 h2 h3 h4 h5 h6, of ?st]
  have "scale (computePlacement ex_source ex_target None) = 1/2 \<and>
   anchorX (computePlacement ex_source ex_target None) = 0 \<and>
   anchorY (computePlacement ex_source ex_target None) = 75 \<and>
   rx (t_coords (transformLayer (1/20) (computePlacement ex_source ex_target None) 0 0 ex_root)) = 0 \<and>
   ry (t_coords (transformLayer (1/20) (computePlacement ex_source ex_target None) 0 0 ex_root)) = 75 \<and>
   rw (t_coords (transformLayer (1/20) (computePlacement ex_source ex_target None) 0 0 ex_root)) = 50 \<and>
   rh (t_coords (transformLayer (1/20) (computePlacement ex_source ex_target None) 0 0 ex_root)) = 50 \<and>
   scale (computePlacement ex_source ex_target (Some ?st)) = 1 \<and>
   anchorX (computePlacement ex_source ex_target (Some ?st)) = - 25 \<and>
   anchorY (computePlacement ex_source ex_target (Some ?st)) = 100 \<and>
   rx (t_coords (transformLayer (1/20) (computePlacement ex_source ex_target (Some ?st)) 0 0 ex_root)) = - 25"
    unfolding Let_def m st by (simp add: fo e)
  then show ?thesis
    using h1 h2 h3 h4 h5 h6 by (simp add: t_coords_transformLayer)
qed

subsection \<open>Per-layer override\<close>

lemma findOverride_eq:
  assumes "strategy pl = Some st" and "overrides st = Some ovs"
  shows "findOverride pl layer = find (\<lambda>ov. layerId ov = l_id layer) ovs"
  using assms by (simp add: findOverride_def)

lemma ex_placement:
  "computePlacement ex_source ex_target (Some (ex_strategy yo)) =
     \<lparr> sourceRect = ex_source, targetRect = ex_target, strategy = Some (ex_strategy yo),
       scale = 1, anchorX = - 25, anchorY = 100 \<rparr>"
  by (simp add: computePlacement_Some) (simp add: ex_defs)

lemma ex_geom:
  "geomX (computePlacement ex_source ex_target (Some (ex_strategy yo))) ex_root = - 25"
  "geomY (computePlacement ex_source ex_target (Some (ex_strategy yo))) ex_root = 100"
  "geomX (computePlacement ex_source ex_target (Some (ex_strategy yo))) ex_child = - 15"
  "geomY (computePlacement ex_source ex_target (Some (ex_strategy yo))) ex_child = 180"
  by (simp_all add: ex_placement geomX_def geomY_def) (simp_all add: ex_defs)

lemma ex_findOverride:
  "findOverride (computePlacement ex_source ex_target (Some (ex_strategy yo))) ex_root =
     Some (ex_override yo)"
  "findOverride (computePlacement ex_source ex_target (Some (ex_strategy yo))) ex_child = None"
  by (simp_all add: ex_placement findOverride_def)
     (simp_all add: ex_strategy_def ex_override_def ex_root_def ex_child_def)

lemma ex_clamp:
  "clampY (1/20) (computePlacement ex_source ex_target (Some (ex_strategy yo))) v =
     max (- 10) (min v 210)"
  by (simp add: ex_placement clampY_def minY_def maxY_def) (simp add: ex_target_def)

text \<open>
  Claim C3, as amended. For a layer whose identifier matches an override of the strategy
  (\<open>find\<close> returns the first such override): the layer's position before clamping is the
  target's origin plus the override's offsets, whatever the inherited delta and the layer's
  baseline (\<open>x\<close> is final, \<open>y\<close> is then clamped); the delta handed to its children is that
  position minus the layer's geometric baseline, and a child that has no override of its own
  sits at its own baseline plus that delta, its \<open>y\<close> then clamped on its own; and the
  layer's scale on both axes is the global scale multiplied by the override's
  \<open>individualScale\<close>, its size the source size times that scale.
\<close>

theorem override_placement:
  assumes "strategy pl = Some st" and "overrides st = Some ovs"
    and "find (\<lambda>ov. layerId ov = l_id layer) ovs = Some ov"
  shows
    "(let t = transformLayer p pl dx dy layer;
          ax = rx (targetRect pl) + xOffset ov;
          ay = ry (targetRect pl) + yOffset ov
      in layerId ov = l_id layer \<and>
         finalX pl layer dx = ax \<and> finalY pl layer dy = ay \<and>
         rx (t_coords t) = ax \<and> ry (t_coords t) = clampY p pl ay \<and>
         t_children t =
           map_option (\<lambda>cs. transformLayers p pl cs (ax - geomX pl layer) (ay - geomY pl layer))
             (l_children layer) \<and>
         (findOverride pl c = None \<longrightarrow>
            rx (t_coords (transformLayer p pl (ax - geomX pl layer) (ay - geomY pl layer) c)) =
              geomX pl c + (ax - geomX pl layer) \<and>
            ry (t_coords (transformLayer p pl (ax - geomX pl layer) (ay - geomY pl layer) c)) =
              clampY p pl (geomY pl c + (ay - geomY pl layer))) \<and>
         scaleX (t_transform t) = scale pl * individualScale ov \<and>
         scaleY (t_transform t) = scale pl * individualScale ov \<and>
         rw (t_coords t) = rw (l_coords layer) * (scale pl * individualScale ov) \<and>
         rh (t_coords t) = rh (l_coords layer) * (scale pl * individualScale ov))"
proof -
  have fo: "findOverride pl layer = Some ov"
    using assms by (simp add: findOverride_eq)
  have idm: "layerId ov = l_id layer"
    using assms(3) by (auto simp: find_Some_iff)
  have fx: "finalX pl layer dx = rx (targetRect pl) + xOffset ov"
    by (simp add: finalX_def fo)
  have fy: "finalY pl layer dy = ry (targetRect pl) + yOffset ov"
    by (simp add: finalY_def fo)
  have cdx: "currentDeltaX pl layer dx = rx (targetRect pl) + xOffset ov - geomX pl layer"
    by (simp add: currentDeltaX_def fo fx)
  have cdy: "currentDeltaY pl layer dy = ry (targetRect pl) + yOffset ov - geomY pl layer"
    by (simp add: currentDeltaY_def fo fy)
  have sx: "layerScaleX pl layer = scale pl * individualScale ov"
    by (simp add: layerScaleX_def fo)
  have sy: "layerScaleY pl layer = scale pl * individualScale ov"
    by (simp add: layerScaleY_def fo)
  have child: "findOverride pl c = None \<longrightarrow>
      rx (t_coords (transformLayer p pl a b c)) = geomX pl c + a \<and>
      ry (t_coords (transformLayer p pl a b c)) = clampY p pl (geomY pl c + b)" for a b
    by (simp add: t_coords_transformLayer finalX_def finalY_def)
  show ?thesis
    unfolding Let_def
    using child
    by (simp add: idm t_coords_transformLayer t_transform_transformLayer t_children_transformLayer
        fx fy cdx cdy sx sy)
qed

theorem override_placement_witness:
  "strategy (computePlacement ex_source ex_target (Some (ex_strategy (- 50)))) =
     Some (ex_strategy (- 50)) \<and>
   overrides (ex_strategy (- 50)) = Some [ex_override (- 50)] \<and>
   find (\<lambda>ov. layerId ov = l_id ex_root) [ex_override (- 50)] = Some (ex_override (- 50)) \<and>
   findOverride (computePlacement ex_source ex_target (Some (ex_strategy (- 50)))) ex_child = None \<and>
   t_coords (transformLayer (1/20)
      (computePlacement ex_source ex_target (Some (ex_strategy (- 50)))) 7 9 ex_root) =
     \<lparr> rx = 500, ry = - 10, rw = 200, rh = 200 \<rparr> \<and>
   t_children (transformLayer (1/20)
      (computePlacement ex_source ex_target (Some (ex_strategy (- 50)))) 7 9 ex_root) =
     Some (transformLayers (1/20)
       (computePlacement ex_source ex_target (Some (ex_strategy (- 50)))) [ex_child] 525 (- 150)) \<and>
   rx (t_coords (transformLayer (1/20)
      (computePlacement ex_source ex_target (Some (ex_strategy (- 50)))) 525 (- 150) ex_child)) = 510 \<and>
   ry (t_coords (transformLayer (1/20)
      (computePlacement ex_source ex_target (Some (ex_strategy (- 50)))) 525 (- 150) ex_child)) = 30"
proof -
  let ?pl = "computePlacement ex_source ex_target (Some (ex_strategy (- 50)))"
  have h1: "strategy ?pl = Some (ex_strategy (- 50))" by (simp add: ex_placement)
  have h2: "overrides (ex_strategy (- 50)) = Some [ex_override (- 50)]"
    by (simp add: ex_strategy_def)
  have h3: "find (\<lambda>ov. layerId ov = l_id ex_root) [ex_override (- 50)] = Some (ex_override (- 50))"
    by (simp add: ex_override_def ex_root_def)
  have v: "rx (targetRect ?pl) + xOffset (ex_override (- 50)) = 500"
          "ry (targetRect ?pl) + yOffset (ex_override (- 50)) = - 50"
          "scale ?pl * individualScale (ex_override (- 50)) = 2"
          "rw (l_coords ex_root) = 100" "rh (l_coords ex_root) = 100"
          "l_children ex_root = Some [ex_child]"
    by (simp_all add: ex_placement) (simp_all add: ex_defs)
  have r: "t_coords (transformLayer (1/20) ?pl 7 9 ex_root) =
             \<lparr> rx = rx (t_coords (transformLayer (1/20) ?pl 7 9 ex_root)),
               ry = ry (t_coords (transformLayer (1/20) ?pl 7 9 ex_root)),
               rw = rw (t_coords (transformLayer (1/20) ?pl 7 9 ex_root)),
               rh = rh (t_coords (transformLayer (1/20) ?pl 7 9 ex_root)) \<rparr>"
    by simp
  show ?thesis
    using h1 h2 h3 override_placement[OF h1 h2 h3, of "1/20" 7 9 ex_child]
    unfolding Let_def v ex_geom ex_clamp
    by (subst r) (simp add: ex_findOverride)
qed

text \<open>
  The claim as stated says that every child shifts by exactly the delta. Two children of an
  overridden root do not: one with an override of its own lands at its own absolute position
  (\<open>x = 1\<close>, not \<open>-15 + 525\<close>), and one whose shifted position leaves the bleed range is
  clamped (\<open>y = 210\<close>, not \<open>180 + 900\<close>).
\<close>

theorem override_children_counterexample:
  "t_children (transformLayer (1/20)
      (computePlacement ex_source ex_target (Some ex_strategy_both)) 0 0 ex_root) =
     Some [transformLayer (1/20)
       (computePlacement ex_source ex_target (Some ex_strategy_both)) 525 (- 150) ex_child] \<and>
   geomX (computePlacement ex_source ex_target (Some ex_strategy_both)) ex_child = - 15 \<and>
   \<not> rx (t_coords (transformLayer (1/20)
        (computePlacement ex_source ex_target (Some ex_strategy_both)) 525 (- 150) ex_child)) =
      geomX (computePlacement ex_source ex_target (Some ex_strategy_both)) ex_child + 525 \<and>
   t_children (transformLayer (1/20)
      (computePlacement ex_source ex_target (Some (ex_strategy 1000))) 0 0 ex_root) =
     Some [transformLayer (1/20)
       (computePlacement ex_source ex_target (Some (ex_strategy 1000))) 525 900 ex_child] \<and>
   geomY (computePlacement ex_source ex_target (Some (ex_strategy 1000))) ex_child = 180 \<and>
   \<not> ry (t_coords (transformLayer (1/20)
        (computePlacement ex_source ex_target (Some (ex_strategy 1000))) 525 900 ex_child)) =
      geomY (computePlacement ex_source ex_target (Some (ex_strategy 1000))) ex_child + 900"
proof -
  let ?pb = "computePlacement ex_source ex_target (Some ex_strategy_both)"
  let ?pf = "computePlacement ex_source ex_target (Some (ex_strategy 1000))"
  have pb: "?pb = \<lparr> sourceRect = ex_source, targetRect = ex_target,
                    strategy = Some ex_strategy_both, scale = 1, anchorX = - 25, anchorY = 100 \<rparr>"
    by (simp add: computePlacement_Some) (simp add: ex_strategy_both_def ex_source_def ex_target_def)
  have fr: "findOverride ?pb ex_root = Some (ex_override (- 50))"
    by (simp add: pb findOverride_def)
       (simp add: ex_strategy_both_def ex_override_def ex_root_def)
  have fc: "findOverride ?pb ex_child = Some ex_child_override"
    by (simp add: pb findOverride_def)
       (simp add: ex_strategy_both_def ex_override_def ex_child_override_def ex_child_def)
  have gb: "geomX ?pb ex_root = - 25" "geomY ?pb ex_root = 100" "geomX ?pb ex_child = - 15"
    by (simp_all add: pb geomX_def geomY_def)
       (simp_all add: ex_source_def ex_root_def ex_child_def)
  have tb: "rx (targetRect ?pb) = 0" "ry (targetRect ?pb) = 0"
    by (simp_all add: pb) (simp_all add: ex_target_def)
  have db: "currentDeltaX ?pb ex_root 0 = 525" "currentDeltaY ?pb ex_root 0 = - 150"
    by (simp_all add: currentDeltaX_def currentDeltaY_def finalX_def finalY_def fr gb tb
          ex_override_def)
  have kb: "t_children (transformLayer (1/20) ?pb 0 0 ex_root) =
              Some [transformLayer (1/20) ?pb 525 (- 150) ex_child]"
    by (simp add: t_children_transformLayer db transformLayers_def) (simp add: ex_root_def)
  have xb: "rx (t_coords (transformLayer (1/20) ?pb 525 (- 150) ex_child)) = 1"
    by (simp add: t_coords_transformLayer finalX_def fc tb ex_child_override_def)
  have tf: "rx (targetRect ?pf) = 0" "ry (targetRect ?pf) = 0"
    by (simp_all add: ex_placement) (simp_all add: ex_target_def)
  have df: "currentDeltaX ?pf ex_root 0 = 525" "currentDeltaY ?pf ex_root 0 = 900"
    by (simp_all add: currentDeltaX_def currentDeltaY_def finalX_def finalY_def ex_findOverride
          ex_geom tf ex_override_def)
  have kf: "t_children (transformLayer (1/20) ?pf 0 0 ex_root) =
              Some [transformLayer (1/20) ?pf 525 900 ex_child]"
    by (simp add: t_children_transformLayer df transformLayers_def) (simp add: ex_root_def)
  have yf: "ry (t_coords (transformLayer (1/20) ?pf 525 900 ex_child)) = 210"
    by (simp add: t_coords_transformLayer finalY_def ex_findOverride ex_geom ex_clamp)
  show ?thesis
    unfolding kb kf xb yf gb ex_geom by simp
qed

subsection \<open>The clamp is not inherited\<close>

text \<open>
  Claim C10. The delta handed to a layer's children is computed from the position before the
  clamp: it is the inherited delta when the layer has no override, and the override's
  absolute position minus the geometric baseline when it has one. The layer's own \<open>y\<close> is
  the clamp of its baseline plus that delta, but the children are transformed with the
  unclamped delta, and each child is clamped on its own.
\<close>

theorem clamp_not_inherited:
  "(let t = transformLayer p pl dx dy layer;
        cdx = (case findOverride pl layer of
                 None \<Rightarrow> dx
               | Some ov \<Rightarrow> rx (targetRect pl) + xOffset ov - geomX pl layer);
        cdy = (case findOverride pl layer of
                 None \<Rightarrow> dy
               | Some ov \<Rightarrow> ry (targetRect pl) + yOffset ov - geomY pl layer)
    in ry (t_coords t) = clampY p pl (geomY pl layer + cdy) \<and>
       t_children t = map_option (\<lambda>cs. transformLayers p pl cs cdx cdy) (l_children layer) \<and>
       (findOverride pl c = None \<longrightarrow>
          ry (t_coords (transformLayer p pl cdx cdy c)) = clampY p pl (geomY pl c + cdy)))"
  unfolding Let_def
  by (cases "findOverride pl layer")
     (simp_all add: t_coords_transformLayer t_children_transformLayer finalY_def finalX_def
        currentDeltaX_def currentDeltaY_def transformLayers_def)

theorem clamp_not_inherited_witness:
  "finalY (computePlacement ex_source ex_target (Some (ex_strategy (- 50)))) ex_root 0 = - 50 \<and>
   ry (t_coords (transformLayer (1/20)
      (computePlacement ex_source ex_target (Some (ex_strategy (- 50)))) 0 0 ex_root)) = - 10 \<and>
   t_children (transformLayer (1/20)
      (computePlacement ex_source ex_target (Some (ex_strategy (- 50)))) 0 0 ex_root) =
     Some (transformLayers (1/20)
       (computePlacement ex_source ex_target (Some (ex_strategy (- 50)))) [ex_child] 525 (- 150)) \<and>
   ry (t_coords (transformLayer (1/20)
      (computePlacement ex_source ex_target (Some (ex_strategy (- 50)))) 525 (- 150) ex_child)) =
     180 + (- 50 - 100) \<and>
   ry (t_coords (transformLayer (1/20)
      (computePlacement ex_source ex_target (Some (ex_strategy (- 50)))) 525 (- 150) ex_child)) \<noteq>
     180 + (- 10 - 100)"
proof -
  let ?pl = "computePlacement ex_source ex_target (Some (ex_strategy (- 50)))"
  have v: "rx (targetRect ?pl) + xOffset (ex_override (- 50)) = 500"
          "ry (targetRect ?pl) + yOffset (ex_override (- 50)) = - 50"
          "l_children ex_root = Some [ex_child]"
    by (simp_all add: ex_placement) (simp_all add: ex_defs)
  have f: "finalY ?pl ex_root 0 = - 50"
    by (simp add: finalY_def ex_findOverride v)
  show ?thesis
    using clamp_not_inherited[of "1/20" ?pl 0 0 ex_root ex_child]
    unfolding Let_def ex_findOverride
    by (simp add: v ex_geom ex_clamp f)
qed

section \<open>Properties of the payload\<close>

text \<open>A ready pair always has a payload; an instance with a side missing has none.\<close>

lemma instancePayload_ready:
  "instancePayload p (Some s) (Some t) conf cr prev = Some (computePayload p s t conf cr prev)"
  by (simp add: instancePayload_def)

lemma instancePayload_not_ready:
  "instancePayload p None tgt conf cr prev = None"
  "instancePayload p src None conf cr prev = None"
  by (simp_all add: instancePayload_def split: option.splits)

lemma gate_None: "gate None sc conf cr = (False, success, None)"
  by (simp add: gate_def)

lemma layers_no_strategy:
  "s_aiStrategy src = None \<Longrightarrow>
   layers (computePayload p src tgt conf cr prev) =
     transformLayers p (computePlacement (s_originalBounds src) (tg_bounds tgt) None) (s_layers src) 0 0"
  by (simp add: computePayload_def Let_def gate_None)

lemma scaleFactor_computePayload:
  "scaleFactor (computePayload p src tgt conf cr prev) =
     scale (computePlacement (s_originalBounds src) (tg_bounds tgt) (s_aiStrategy src))"
  by (simp add: computePayload_def Let_def split: prod.splits)

lemma gate_cases:
  "gate strat sc conf cr =
    (if (\<exists>st. strat = Some st \<and> truthy (generativePrompt st)) then
       (if conf = Some True \<and> 0 < cr
        then (True, success, generativePrompt (the strat))
        else if isExplicitIntent (the strat) \<or> 2 < sc then (False, awaiting_confirmation, None)
        else (False, success, None))
     else (False, success, None))"
  by (auto simp: gate_def truthy_bool_def Let_def split: option.splits)

text \<open>The payload's fields that the gate decides, in terms of the gate's result.\<close>

lemma payload_gate_fields:
  "status (computePayload p src tgt conf cr prev) =
     fst (snd (gate (s_aiStrategy src)
       (scale (computePlacement (s_originalBounds src) (tg_bounds tgt) (s_aiStrategy src))) conf cr))"
  "requiresGeneration (computePayload p src tgt conf cr prev) =
     fst (gate (s_aiStrategy src)
       (scale (computePlacement (s_originalBounds src) (tg_bounds tgt) (s_aiStrategy src))) conf cr)"
  by (simp_all add: computePayload_def Let_def split: prod.splits)

lemma payload_layers:
  "layers (computePayload p src tgt conf cr prev) =
    (let pl = computePlacement (s_originalBounds src) (tg_bounds tgt) (s_aiStrategy src);
         g = gate (s_aiStrategy src) (scale pl) conf cr;
         base = transformLayers p pl (s_layers src) 0 0
     in case snd (snd g) of
          Some prompt \<Rightarrow>
            if fst g \<and> prompt \<noteq> [] then genLayer (s_name src) (tg_bounds tgt) prompt # base
            else base
        | None \<Rightarrow> base)"
  by (cases "gate (s_aiStrategy src)
        (scale (computePlacement (s_originalBounds src) (tg_bounds tgt) (s_aiStrategy src))) conf cr")
     (simp add: computePayload_def Let_def split: option.splits)

subsection \<open>Generative gate\<close>

text \<open>
  Claim C1. With a non-empty generative prompt in the strategy: if the instance is confirmed
  and \<open>userCredits > 0\<close>, the payload has \<open>requiresGeneration = true\<close>, status \<open>success\<close>,
  and its layers are the transformed layers with one synthetic layer in front, of type
  \<open>generative\<close>, sized to the target rectangle and carrying the prompt (no other layer
  carries a prompt); otherwise, if the strategy has explicit intent or the scale exceeds
  \<open>2.0\<close>, the status is \<open>awaiting_confirmation\<close> and nothing is injected; otherwise the
  payload is geometric (\<open>requiresGeneration = false\<close>, status \<open>success\<close>). Without a prompt
  (no strategy, no prompt, or an empty one) the payload is geometric whatever the
  confirmation and the credits.
\<close>

theorem generative_gate:
  "(let pay = computePayload p src tgt conf credits prev;
        pl = computePlacement (s_originalBounds src) (tg_bounds tgt) (s_aiStrategy src);
        base = transformLayers p pl (s_layers src) 0 0
    in case s_aiStrategy src of
         None \<Rightarrow> \<not> requiresGeneration pay \<and> status pay = success \<and> layers pay = base
       | Some st \<Rightarrow>
          (case generativePrompt st of
             None \<Rightarrow> \<not> requiresGeneration pay \<and> status pay = success \<and> layers pay = base
           | Some prompt \<Rightarrow>
              if prompt = [] then
                \<not> requiresGeneration pay \<and> status pay = success \<and> layers pay = base
              else if conf = Some True \<and> 0 < credits then
                requiresGeneration pay \<and> status pay = success \<and>
                layers pay = genLayer (s_name src) (tg_bounds tgt) prompt # base \<and>
                t_type (genLayer (s_name src) (tg_bounds tgt) prompt) = ''generative'' \<and>
                t_coords (genLayer (s_name src) (tg_bounds tgt) prompt) = tg_bounds tgt \<and>
                t_generativePrompt (genLayer (s_name src) (tg_bounds tgt) prompt) = Some prompt \<and>
                list_all (\<lambda>t. t_generativePrompt t = None) base
              else if isExplicitIntent st \<or> 2 < scaleFactor pay then
                \<not> requiresGeneration pay \<and> status pay = awaiting_confirmation \<and> layers pay = base
              else
                \<not> requiresGeneration pay \<and> status pay = success \<and> layers pay = base))"
proof -
  have np: "list_all (\<lambda>t. t_generativePrompt t = None) (transformLayers p pl ls 0 0)" for pl ls
    by (simp add: transformLayers_def list_all_iff t_fields_transformLayer)
  have g: "t_type (genLayer n r pr) = ''generative'' \<and> t_coords (genLayer n r pr) = r \<and>
           t_generativePrompt (genLayer n r pr) = Some pr" for n r pr
    by (simp add: genLayer_def)
  show ?thesis
    unfolding Let_def
    by (simp add: payload_gate_fields payload_layers scaleFactor_computePayload gate_cases truthy_def
        np g Let_def split: option.splits)
qed

theorem generative_gate_witness:
  "requiresGeneration
     (computePayload (1/20) (ex_sourceData (Some (ex_strategy 0))) ex_targetData (Some True) 5 None) \<and>
   status
     (computePayload (1/20) (ex_sourceData (Some (ex_strategy 0))) ex_targetData (Some True) 5 None)
     = success \<and>
   layers
     (computePayload (1/20) (ex_sourceData (Some (ex_strategy 0))) ex_targetData (Some True) 5 None)
     = genLayer (Some ''Hero'') ex_target ''sky'' #
       transformLayers (1/20) (computePlacement ex_source ex_target (Some (ex_strategy 0)))
         [ex_root] 0 0 \<and>
   status
     (computePayload (1/20) (ex_sourceData (Some (ex_strategy 0))) ex_targetData None 5 None)
     = awaiting_confirmation \<and>
   layers
     (computePayload (1/20) (ex_sourceData (Some (ex_strategy 0))) ex_targetData None 5 None)
     = transformLayers (1/20) (computePlacement ex_source ex_target (Some (ex_strategy 0)))
         [ex_root] 0 0 \<and>
   status
     (computePayload (1/20) (ex_sourceData None) ex_targetData (Some True) 5 None) = success \<and>
   \<not> requiresGeneration
     (computePayload (1/20) (ex_sourceData None) ex_targetData (Some True) 5 None)"
  using
    generative_gate[of "1/20" "ex_sourceData (Some (ex_strategy 0))" ex_targetData "Some True" 5 None]
    generative_gate[of "1/20" "ex_sourceData (Some (ex_strategy 0))" ex_targetData None 5 None]
    generative_gate[of "1/20" "ex_sourceData None" ex_targetData "Some True" 5 None]
  by (simp add: Let_def ex_sourceData_def ex_targetData_def ex_strategy_def)

subsection \<open>Shape and field preservation\<close>

text \<open>
  Claim C9. When the gate does not approve generation, the payload's layer trees mirror the
  source trees: one transformed node per source node, children in the same order, identifier,
  name, type, visibility and opacity unchanged. When generation is approved the only
  difference is one generative layer, without children, in front of the top-level list.
\<close>

theorem shape_and_fields_preserved:
  "(let pay = computePayload p src tgt conf credits prev
    in if requiresGeneration pay
       then (case layers pay of
               [] \<Rightarrow> False
             | g # rest \<Rightarrow>
                 t_type g = ''generative'' \<and> t_children g = None \<and>
                 list_all2 mirrors (s_layers src) rest)
       else list_all2 mirrors (s_layers src) (layers pay))"
proof (cases "s_aiStrategy src")
  case None
  then show ?thesis
    by (simp add: payload_gate_fields payload_layers gate_None mirrors_transformLayers Let_def)
next
  case (Some st)
  show ?thesis
  proof (cases "generativePrompt st")
    case None
    with Some show ?thesis
      by (simp add: payload_gate_fields payload_layers gate_def truthy_def
          mirrors_transformLayers Let_def)
  next
    case (Some prompt)
    with \<open>s_aiStrategy src = Some st\<close> show ?thesis
      by (simp add: payload_gate_fields payload_layers gate_def truthy_def truthy_bool_def
          mirrors_transformLayers genLayer_def Let_def)
  qed
qed

theorem shape_and_fields_preserved_witness:
  "\<not> requiresGeneration
      (computePayload (1/20) (ex_sourceData (Some (ex_strategy 0))) ex_targetData None 5 None) \<and>
   list_all2 mirrors [ex_root]
     (layers (computePayload (1/20) (ex_sourceData (Some (ex_strategy 0))) ex_targetData None 5 None)) \<and>
   requiresGeneration
      (computePayload (1/20) (ex_sourceData (Some (ex_strategy 0))) ex_targetData (Some True) 5 None) \<and>
   list_all2 mirrors [ex_root]
     (tl (layers (computePayload (1/20) (ex_sourceData (Some (ex_strategy 0))) ex_targetData
        (Some True) 5 None)))"
proof -
  let ?s = "ex_sourceData (Some (ex_strategy 0))"
  have a: "\<not> requiresGeneration (computePayload (1/20) ?s ex_targetData None 5 None)"
    by (simp add: payload_gate_fields gate_cases ex_sourceData_def)
  have b: "requiresGeneration (computePayload (1/20) ?s ex_targetData (Some True) 5 None)"
    by (simp add: payload_gate_fields gate_cases ex_sourceData_def ex_strategy_def truthy_def)
  have l: "s_layers ?s = [ex_root]" by (simp add: ex_sourceData_def)
  show ?thesis
    using a b
      shape_and_fields_preserved[of "1/20" ?s ex_targetData None 5 None]
      shape_and_fields_preserved[of "1/20" ?s ex_targetData "Some True" 5 None]
    by (simp add: Let_def l split: list.splits)
qed

subsection \<open>The error status\<close>

lemma status_never_error: "status (computePayload p src tgt conf cr prev) \<noteq> error"
  by (simp add: payload_gate_fields gate_def Let_def split: option.splits)

text \<open>
  Claim C5 asks for a payload of status \<open>error\<close> when a prompt is present, generation is
  wanted, the instance is confirmed and the balance is zero. The gate has no such branch: on
  that input it answers \<open>awaiting_confirmation\<close>, and by \<open>status_never_error\<close> no input
  yields \<open>error\<close>.
\<close>

theorem insufficient_credits_not_error:
  "status (computePayload (1/20) (ex_sourceData (Some (ex_strategy 0))) ex_targetData
             (Some True) 0 None) = awaiting_confirmation \<and>
   \<not> requiresGeneration (computePayload (1/20) (ex_sourceData (Some (ex_strategy 0))) ex_targetData
             (Some True) 0 None)"
  by (simp add: payload_gate_fields gate_def truthy_def truthy_bool_def Let_def
      ex_sourceData_def ex_strategy_def)

subsection \<open>End-to-end scenario\<close>

text \<open>
  Claim C6, as amended. For source bounds \<open>{0, 0, 100, 100}\<close> and target bounds
  \<open>{0, 0, 50, 200}\<close> with no strategy, the scale is \<open>0.5\<close> and the transformed root layer
  sits at \<open>x = 0\<close> and \<open>y = 75\<close>, which is \<open>(200 - 50) / 2\<close>; the claim's \<open>y = 50\<close> is not what
  the engine computes.
\<close>

theorem scenario_root_at_75:
  assumes "0 \<le> p"
    and "s_originalBounds src = \<lparr> rx = 0, ry = 0, rw = 100, rh = 100 \<rparr>"
    and "tg_bounds tgt = \<lparr> rx = 0, ry = 0, rw = 50, rh = 200 \<rparr>"
    and "s_aiStrategy src = None"
    and "s_layers src = [rootLayer]"
    and "rx (l_coords rootLayer) = 0" and "ry (l_coords rootLayer) = 0"
  shows "scaleFactor (computePayload p src tgt conf credits prev) = 1/2 \<and>
         map (\<lambda>t. (rx (t_coords t), ry (t_coords t)))
           (layers (computePayload p src tgt conf credits prev)) = [(0, 75)]"
proof -
  let ?pl = "computePlacement \<lparr> rx = 0, ry = 0, rw = 100, rh = 100 \<rparr>
               \<lparr> rx = 0, ry = 0, rw = 50, rh = 200 \<rparr> None"
  have pl: "?pl = \<lparr> sourceRect = \<lparr> rx = 0, ry = 0, rw = 100, rh = 100 \<rparr>,
                    targetRect = \<lparr> rx = 0, ry = 0, rw = 50, rh = 200 \<rparr>,
                    strategy = None, scale = 1/2, anchorX = 0, anchorY = 75 \<rparr>"
    by (simp add: computePlacement_def Let_def)
  have fo: "findOverride ?pl rootLayer = None" by (simp add: pl findOverride_def)
  have x: "finalX ?pl rootLayer 0 = 0"
    using assms(6) fo by (simp add: finalX_def geomX_def pl)
  have y: "finalY ?pl rootLayer 0 = 75"
    using assms(7) fo by (simp add: finalY_def geomY_def pl)
  have c: "clampY p ?pl 75 = 75"
    using assms(1) by (simp add: clampY_def minY_def maxY_def pl)
  show ?thesis
    using assms(2-5)
    by (simp add: scaleFactor_computePayload layers_no_strategy transformLayers_def
        t_coords_transformLayer x y c) (simp add: pl)
qed

theorem scenario_root_at_75_witness:
  "(0::real) \<le> 1/20 \<and>
   s_originalBounds (ex_sourceData None) = \<lparr> rx = 0, ry = 0, rw = 100, rh = 100 \<rparr> \<and>
   tg_bounds ex_targetData = \<lparr> rx = 0, ry = 0, rw = 50, rh = 200 \<rparr> \<and>
   s_aiStrategy (ex_sourceData None) = None \<and>
   s_layers (ex_sourceData None) = [ex_root] \<and>
   rx (l_coords ex_root) = 0 \<and> ry (l_coords ex_root) = 0 \<and>
   scaleFactor (computePayload (1/20) (ex_sourceData None) ex_targetData None 5 None) = 1/2 \<and>
   map (\<lambda>t. (rx (t_coords t), ry (t_coords t)))
     (layers (computePayload (1/20) (ex_sourceData None) ex_targetData None 5 None)) = [(0, 75)]"
proof -
  have h1: "(0::real) \<le> 1/20" by simp
  have h2: "s_originalBounds (ex_sourceData None) = \<lparr> rx = 0, ry = 0, rw = 100, rh = 100 \<rparr>"
    by (simp add: ex_defs)
  have h3: "tg_bounds ex_targetData = \<lparr> rx = 0, ry = 0, rw = 50, rh = 200 \<rparr>"
    by (simp add: ex_defs)
  have h4: "s_aiStrategy (ex_sourceData None) = None" by (simp add: ex_defs)
  have h5: "s_layers (ex_sourceData None) = [ex_root]" by (simp add: ex_defs)
  have h6: "rx (l_coords ex_root) = 0" by (simp add: ex_defs)
  have h7: "ry (l_coords ex_root) = 0" by (simp add: ex_defs)
  show ?thesis
    using h1 h2 h3 h4 h5 h6 h7 scenario_root_at_75[OF h1 h2 h3 h4 h5 h6 h7, of None 5 None]
    by blast
qed

text \<open>The claim as stated, with \<open>y = 50\<close>, fails on the same input.\<close>

theorem scenario_counterexample:
  "\<not> (scaleFactor (computePayload (1/20) (ex_sourceData None) ex_targetData None 5 None) = 1/2 \<and>
      rx (t_coords (hd (layers
        (computePayload (1/20) (ex_sourceData None) ex_targetData None 5 None)))) = 0 \<and>
      ry (t_coords (hd (layers
        (computePayload (1/20) (ex_sourceData None) ex_targetData None 5 None)))) = 50)"
  by (simp add: layers_no_strategy ex_sourceData_def ex_targetData_def t_coords_transformLayer
      engine_defs ex_source_def ex_target_def ex_root_def Let_def)

section \<open>Properties of the resolver\<close>

lemma removeFirst_prefix:
  "startsWith s pat \<Longrightarrow> removeFirst pat s = drop (length pat) s"
  by (cases s) (auto simp: startsWith_def)

lemma at_index_single: "at_index [c] 0 = Some c"
  by (simp add: at_index_def)

lemma find_name_Some:
  "c \<in> set cs \<Longrightarrow> c_name c = h \<Longrightarrow>
   \<exists>c'. find (\<lambda>c. c_name c = h) cs = Some c' \<and> c_name c' = h"
  by (induction cs) auto

text \<open>
  Claim C7. Target-container resolution tries exact handle-name equality, then the
  \<open>slot-bounds-\<close> prefix strip and name match, then the zero-based \<open>target-out-<integer>\<close>
  index when in bounds, then the single-container fallback, and uses the first that matches:
  the code computes what the ordered list of strategies yields. In particular a handle that
  equals a container's name and also matches the indexed pattern resolves by name.
\<close>

theorem resolver_strategy_order:
  "resolveContainer containers handle = resolve_spec containers handle \<and>
   (c \<in> set containers \<and> c_name c = handle \<and> indexMatch handle \<noteq> None \<longrightarrow>
      resolveContainer containers handle = find (\<lambda>c. c_name c = handle) containers \<and>
      (\<exists>c'. resolveContainer containers handle = Some c' \<and> c_name c' = handle))"
proof -
  have eq: "resolveContainer containers handle = resolve_spec containers handle"
  proof (cases "find (\<lambda>c. c_name c = handle) containers")
    case (Some a)
    then show ?thesis
      by (simp add: resolveContainer_def resolve_spec_def strategyA_def Let_def)
  next
    case None
    note A = this
    show ?thesis
    proof (cases "strategyB containers handle")
      case (Some b)
      then show ?thesis
        using A
        by (auto simp: resolveContainer_def resolve_spec_def strategyA_def strategyB_def Let_def
            removeFirst_prefix split: if_splits)
    next
      case None
      note B = this
      have B': "(if startsWith handle ''slot-bounds-''
                 then find (\<lambda>c. c_name c = removeFirst ''slot-bounds-'' handle) containers
                 else None) = None"
        using B by (auto simp: strategyB_def removeFirst_prefix split: if_splits)
      show ?thesis
      proof (cases "strategyC containers handle")
        case (Some cc)
        then show ?thesis
          using A B B'
          by (auto simp: resolveContainer_def resolve_spec_def strategyA_def strategyC_def Let_def
              split: if_splits option.splits)
      next
        case None
        then show ?thesis
          using A B B'
          by (cases containers rule: list.exhaust[case_names Nil Cons];
              cases "tl containers")
             (auto simp: resolveContainer_def resolve_spec_def strategyA_def strategyC_def
               strategyD_def Let_def at_index_def split: if_splits option.splits list.splits)
      qed
    qed
  qed
  have part: "c \<in> set containers \<and> c_name c = handle \<and> indexMatch handle \<noteq> None \<longrightarrow>
      resolveContainer containers handle = find (\<lambda>c. c_name c = handle) containers \<and>
      (\<exists>c'. resolveContainer containers handle = Some c' \<and> c_name c' = handle)"
  proof (intro impI, elim conjE)
    assume "c \<in> set containers" "c_name c = handle"
    then obtain c' where "find (\<lambda>c. c_name c = handle) containers = Some c'" "c_name c' = handle"
      using find_name_Some by blast
    then show "resolveContainer containers handle = find (\<lambda>c. c_name c = handle) containers \<and>
      (\<exists>c'. resolveContainer containers handle = Some c' \<and> c_name c' = handle)"
      by (simp add: resolveContainer_def Let_def)
  qed
  show ?thesis using eq part by blast
qed

theorem resolver_strategy_order_witness:
  "ex_slot \<in> set ex_containers \<and> c_name ex_slot = ''target-out-0'' \<and>
   indexMatch ''target-out-0'' \<noteq> None \<and>
   strategyC ex_containers ''target-out-0'' = Some ex_bg \<and>
   resolveContainer ex_containers ''target-out-0'' = Some ex_slot \<and>
   resolve_spec ex_containers ''target-out-0'' = Some ex_slot"
proof -
  have h1: "ex_slot \<in> set ex_containers" by (simp add: ex_containers_def)
  have h2: "c_name ex_slot = ''target-out-0''" by (simp add: ex_slot_def)
  have h3: "indexMatch ''target-out-0'' = Some ''0''"
    by (simp add: indexMatch_def startsWith_def isDigit_def)
  have h4: "strategyC ex_containers ''target-out-0'' = Some ex_bg"
    by (simp add: strategyC_def h3 parseInt10_def digitVal_def at_index_def ex_containers_def)
  have f: "find (\<lambda>c. c_name c = ''target-out-0'') ex_containers = Some ex_slot"
    by (simp add: ex_containers_def ex_slot_def ex_bg_def)
  have eq: "resolveContainer ex_containers ''target-out-0'' =
              resolve_spec ex_containers ''target-out-0''"
    and byname: "resolveContainer ex_containers ''target-out-0'' =
              find (\<lambda>c. c_name c = ''target-out-0'') ex_containers"
    using h1 h2 h3 resolver_strategy_order[of ex_containers "''target-out-0''" ex_slot]
    by blast+
  have r: "resolveContainer ex_containers ''target-out-0'' = Some ex_slot"
    using byname f by simp
  have "resolve_spec ex_containers ''target-out-0'' = Some ex_slot"
    using eq r by simp
  then show ?thesis
    using h1 h2 h3 h4 r by simp
qed

section \<open>Properties of the credit store\<close>

text \<open>
  When the callback is the one of the current render (the value it tested is the state),
  \<open>consumeCredit\<close> is a compare-and-decrement and keeps a balance that is not negative.
\<close>

lemma consumeCredit_fresh:
  assumes "renderedCredits st = userCredits st"
  shows "consumeCredit amount st =
           (if amount \<le> userCredits st
            then (True, st\<lparr> userCredits := userCredits st - amount \<rparr>)
            else (False, st))"
  using assms by (simp add: consumeCredit_def)

lemma consumeCredit_fresh_nonneg:
  assumes "renderedCredits st = userCredits st" and "0 \<le> userCredits st"
  shows "0 \<le> userCredits (snd (consumeCredit amount st))"
  using assms by (simp add: consumeCredit_def)

text \<open>
  Claim C8 calls \<open>consumeCredit\<close> an atomic compare-and-decrement that never takes a balance
  below zero. Two calls through the same callback, before the store renders again, both test
  the balance of that render: with one credit, both return \<open>true\<close> and the balance ends at
  \<open>-1\<close>.
\<close>

theorem consumeCredit_stale_double_spend:
  "(let s0 = \<lparr> renderedCredits = 1, userCredits = 1 \<rparr>;
        (r1, s1) = consumeCredit 1 s0;
        (r2, s2) = consumeCredit 1 s1
    in r1 \<and> r2 \<and> userCredits s2 = - 1 \<and> renderedCredits (render s2) = - 1)"
  by (simp add: consumeCredit_def render_def Let_def)

end
